theory Spec2Isabelle
  imports Complex_Main "HOL-Library.AList"
begin

section \<open>Strings of the host language\<close>

text \<open>
  A Python \<open>str\<close> is a sequence of code points. It is modelled as a \<open>string\<close> in which
  one \<open>char\<close> stands for one code point below 256, so that \<open>length\<close> is Python's
  \<open>len\<close>. The character classes the program relies on are written out for this range
  as CPython 3.11 has them: \<open>str.isspace\<close>, \<open>str.isdigit\<close> (which accepts the
  superscripts 0xB2, 0xB3 and 0xB9 besides \<open>0\<close> to \<open>9\<close>), the decimal digits and
  \<open>str.lower\<close>.
\<close>

definition isspace :: "char \<Rightarrow> bool" where
  "isspace c =
     (let n = (of_char c :: nat)
      in (9 \<le> n \<and> n \<le> 13) \<or> (28 \<le> n \<and> n \<le> 32) \<or> n = 133 \<or> n = 160)"

definition isdigit_char :: "char \<Rightarrow> bool" where
  "isdigit_char c =
     (let n = (of_char c :: nat)
      in (48 \<le> n \<and> n \<le> 57) \<or> n = 178 \<or> n = 179 \<or> n = 185)"

definition isdecimal_char :: "char \<Rightarrow> bool" where
  "isdecimal_char c = (let n = (of_char c :: nat) in 48 \<le> n \<and> n \<le> 57)"

definition lower_char :: "char \<Rightarrow> char" where
  "lower_char c =
     (let n = (of_char c :: nat)
      in if (65 \<le> n \<and> n \<le> 90) \<or> (192 \<le> n \<and> n \<le> 222 \<and> n \<noteq> 215)
         then char_of (n + 32) else c)"

text \<open>\<open>s.isdigit()\<close>: false on the empty string.\<close>

definition isdigit :: "string \<Rightarrow> bool" where
  "isdigit s = (s \<noteq> [] \<and> list_all isdigit_char s)"

definition lower :: "string \<Rightarrow> string" where
  "lower s = map lower_char s"

definition startswith :: "string \<Rightarrow> string \<Rightarrow> bool" where
  "startswith s p = (take (length p) s = p)"

text \<open>\<open>s.split(sep, maxsplit)\<close> with a one-character separator: empty pieces are kept.\<close>

fun split_once :: "char \<Rightarrow> string \<Rightarrow> (string \<times> string) option" where
  "split_once sep [] = None"
| "split_once sep (c # cs) =
     (if c = sep then Some ([], cs)
      else (case split_once sep cs of
              None \<Rightarrow> None
            | Some (a, rest) \<Rightarrow> Some (c # a, rest)))"

fun split_max :: "char \<Rightarrow> nat \<Rightarrow> string \<Rightarrow> string list" where
  "split_max sep 0 s = [s]"
| "split_max sep (Suc n) s =
     (case split_once sep s of
        None \<Rightarrow> [s]
      | Some (a, rest) \<Rightarrow> a # split_max sep n rest)"

text \<open>
  \<open>s.split()\<close> without arguments: the pieces between runs of whitespace, none of them
  empty. The first argument is the piece being read, reversed.
\<close>

fun split_ws_from :: "string \<Rightarrow> string \<Rightarrow> string list" where
  "split_ws_from cur [] = (if cur = [] then [] else [rev cur])"
| "split_ws_from cur (c # cs) =
     (if isspace c
      then (if cur = [] then split_ws_from [] cs else rev cur # split_ws_from [] cs)
      else split_ws_from (c # cur) cs)"

definition split_ws :: "string \<Rightarrow> string list" where
  "split_ws s = split_ws_from [] s"

text \<open>\<open>sep.join(xs)\<close>.\<close>

fun join :: "string \<Rightarrow> string list \<Rightarrow> string" where
  "join sep [] = []"
| "join sep [x] = x"
| "join sep (x # y # ys) = x @ sep @ join sep (y # ys)"

text \<open>
  Python's slice \<open>xs[start:stop]\<close> for integer bounds: a negative bound counts from the
  end, and both bounds are clipped to the list.
\<close>

definition py_slice :: "int \<Rightarrow> int \<Rightarrow> 'a list \<Rightarrow> 'a list" where
  "py_slice start stop xs =
     (let n = int (length xs);
          clip = (\<lambda>i. if i < 0 then max (i + n) 0 else min i n);
          lo = clip start;
          hi = clip stop
      in take (nat (hi - lo)) (drop (nat lo) xs))"

text \<open>
  \<open>int(s)\<close> for a string: surrounding whitespace is dropped (the separators 0x1C to
  0x1F do not count as whitespace here), one sign is allowed, then decimal digits with
  single underscores between them; more than 4300 digits are refused. \<open>None\<close> stands
  for the \<open>ValueError\<close>.
\<close>

definition int_space :: "char \<Rightarrow> bool" where
  "int_space c =
     (let n = (of_char c :: nat) in (9 \<le> n \<and> n \<le> 13) \<or> n = 32 \<or> n = 133 \<or> n = 160)"

fun parse_digits :: "bool \<Rightarrow> int \<Rightarrow> string \<Rightarrow> int option" where
  "parse_digits prev acc [] = (if prev then Some acc else None)"
| "parse_digits prev acc (c # cs) =
     (if isdecimal_char c then parse_digits True (10 * acc + (int (of_char c) - 48)) cs
      else if c = CHR ''_'' \<and> prev then parse_digits False acc cs
      else None)"

definition strip :: "string \<Rightarrow> string" where
  "strip s = rev (dropWhile int_space (rev (dropWhile int_space s)))"

definition py_int :: "string \<Rightarrow> int option" where
  "py_int s =
     (let t = strip s
      in if 4300 < length (filter isdecimal_char t) then None
         else (case t of
                 [] \<Rightarrow> None
               | c # cs \<Rightarrow>
                   if c = CHR ''-'' then map_option uminus (parse_digits False 0 cs)
                   else if c = CHR ''+'' then parse_digits False 0 cs
                   else parse_digits False 0 t))"

section \<open>Exceptions\<close>

text \<open>
  Every exception the program can raise is a value. \<open>SystemExit\<close> is what \<open>exit()\<close>
  raises; it is the only one the command loop does not catch.
\<close>

datatype error = ValueError string | IndexError string | KeyError string | SystemExit

text \<open>
  Unpacking a list of \<open>got\<close> items into \<open>expected\<close> names, when the two differ. Both
  numbers are below ten wherever the program can fail this way.
\<close>

definition unpack_error :: "nat \<Rightarrow> nat \<Rightarrow> error" where
  "unpack_error expected got =
     ValueError
       (if got < expected
        then ''not enough values to unpack (expected '' @ [char_of (48 + expected)]
               @ '', got '' @ [char_of (48 + got)] @ '')''
        else ''too many values to unpack (expected '' @ [char_of (48 + expected)] @ '')'')"

section \<open>Fields\<close>

text \<open>
  A field object holds one string. \<open>Phone\<close> checks the value in its constructor and in
  its setter. \<open>Birthday\<close> defines a checking setter only: it inherits the constructor of
  \<open>Field\<close>, which stores into \<open>_value\<close> directly and so never reaches the setter.
\<close>

definition Field_init :: "string \<Rightarrow> string" where
  "Field_init v = v"

definition is_valid_phone :: "string \<Rightarrow> bool" where
  "is_valid_phone phone = (length phone = 10 \<and> isdigit phone)"

definition Phone_init :: "string \<Rightarrow> error + string" where
  "Phone_init v =
     (if \<not> is_valid_phone v then Inl (ValueError ''Invalid phone number format'')
      else Inr (Field_init v))"

text \<open>
  A method that changes its object returns the exception it raised, if any, and the
  object as the call leaves it. The setter of \<open>Phone\<close> raises before it assigns.
\<close>

definition Phone_set_value :: "string \<Rightarrow> string \<Rightarrow> error option \<times> string" where
  "Phone_set_value self new_value =
     (if \<not> is_valid_phone new_value then (Some (ValueError ''Invalid phone number format''), self)
      else (None, new_value))"

definition Birthday_init :: "string \<Rightarrow> error + string" where
  "Birthday_init v = Inr (Field_init v)"

text \<open>
  The setter of \<open>Birthday\<close>. Whether \<open>datetime.strptime(new_value, '%Y-%m-%d')\<close> succeeds
  is the parameter \<open>strptime_ok\<close>.
\<close>

definition Birthday_set_value :: "(string \<Rightarrow> bool) \<Rightarrow> string \<Rightarrow> string \<Rightarrow> error option \<times> string" where
  "Birthday_set_value strptime_ok self new_value =
     (if strptime_ok new_value then (None, new_value)
      else (Some (ValueError ''Invalid birthday date format. Use YYYY-MM-DD format.''), self))"

section \<open>Records\<close>

record Record =
  name :: string
  phones :: "string list"
  birthday :: "string option"

text \<open>\<open>Record(name, birthday)\<close>: an empty birthday string counts as no birthday.\<close>

definition Record_init :: "string \<Rightarrow> string option \<Rightarrow> error + Record" where
  "Record_init nm bday =
     (case bday of
        None \<Rightarrow> Inr \<lparr>name = Field_init nm, phones = [], birthday = None\<rparr>
      | Some s \<Rightarrow>
          if s = [] then Inr \<lparr>name = Field_init nm, phones = [], birthday = None\<rparr>
          else (case Birthday_init s of
                  Inl e \<Rightarrow> Inl e
                | Inr v \<Rightarrow> Inr \<lparr>name = Field_init nm, phones = [], birthday = Some v\<rparr>))"

definition add_phone :: "string \<Rightarrow> Record \<Rightarrow> error option \<times> Record" where
  "add_phone phone r =
     (case Phone_init phone of
        Inl e \<Rightarrow> (Some e, r)
      | Inr p \<Rightarrow> (None, r\<lparr>phones := phones r @ [p]\<rparr>))"

text \<open>The loop of \<open>remove_phone\<close>: the first phone with the given value goes.\<close>

fun remove_phone_loop :: "string \<Rightarrow> string list \<Rightarrow> string list" where
  "remove_phone_loop phone [] = []"
| "remove_phone_loop phone (p # ps) =
     (if p = phone then ps else p # remove_phone_loop phone ps)"

definition remove_phone :: "string \<Rightarrow> Record \<Rightarrow> Record" where
  "remove_phone phone r = r\<lparr>phones := remove_phone_loop phone (phones r)\<rparr>"

text \<open>
  The loop of \<open>edit_phone\<close>: at the first phone with the old value the setter runs and the
  loop stops; the \<open>else\<close> of the \<open>for\<close> raises when the loop ends without a match.
\<close>

fun edit_phone_loop :: "string \<Rightarrow> string \<Rightarrow> string list \<Rightarrow> error option \<times> string list" where
  "edit_phone_loop old_phone new_phone [] = (Some (ValueError ''Phone number not found''), [])"
| "edit_phone_loop old_phone new_phone (p # ps) =
     (if p = old_phone
      then (case Phone_set_value p new_phone of (e, p') \<Rightarrow> (e, p' # ps))
      else (case edit_phone_loop old_phone new_phone ps of (e, ps') \<Rightarrow> (e, p # ps')))"

definition edit_phone :: "string \<Rightarrow> string \<Rightarrow> Record \<Rightarrow> error option \<times> Record" where
  "edit_phone old_phone new_phone r =
     (case edit_phone_loop old_phone new_phone (phones r) of
        (e, ps) \<Rightarrow> (e, r\<lparr>phones := ps\<rparr>))"

text \<open>The loop of \<open>find_phone\<close>; falling off its end returns \<open>None\<close>.\<close>

fun find_phone_loop :: "string \<Rightarrow> string list \<Rightarrow> string option" where
  "find_phone_loop phone [] = None"
| "find_phone_loop phone (p # ps) = (if p = phone then Some p else find_phone_loop phone ps)"

definition find_phone :: "string \<Rightarrow> Record \<Rightarrow> string option" where
  "find_phone phone r = find_phone_loop phone (phones r)"

text \<open>
  \<open>days_to_birthday\<close> reads the clock and is not part of the model; no command calls
  it.
\<close>

text \<open>\<open>str(record)\<close>.\<close>

definition Record_str :: "Record \<Rightarrow> string" where
  "Record_str r =
     (let birthday_info = (case birthday r of Some b \<Rightarrow> '', Birthday: '' @ b | None \<Rightarrow> [])
      in ''Contact name: '' @ name r @ '', phones: '' @ join ''; '' (phones r) @ birthday_info)"

section \<open>The address book\<close>

text \<open>
  A record is a mutable object that the dictionary \<open>data\<close> and the list \<open>_values\<close> both
  refer to, so the book carries a store of record objects and the two views hold
  addresses into it. Python's dictionary keeps its keys in insertion order, an
  overwritten key stays in place: that is \<open>AList.update\<close>.
\<close>

type_synonym addr = nat

record AddressBook =
  store :: "Record list"
  data :: "(string \<times> addr) list"
  book_values :: "addr list"

definition AddressBook_init :: AddressBook where
  "AddressBook_init = \<lparr>store = [], data = [], book_values = []\<rparr>"

text \<open>Creating a record object: it gets the next free address.\<close>

definition new_object :: "Record \<Rightarrow> AddressBook \<Rightarrow> addr \<times> AddressBook" where
  "new_object r b = (length (store b), b\<lparr>store := store b @ [r]\<rparr>)"

definition add_record :: "addr \<Rightarrow> AddressBook \<Rightarrow> AddressBook" where
  "add_record record b =
     b\<lparr>data := AList.update (name (store b ! record)) record (data b),
       book_values := book_values b @ [record]\<rparr>"

definition find_record :: "string \<Rightarrow> AddressBook \<Rightarrow> addr option" where
  "find_record nm b = map_of (data b) nm"

definition delete :: "string \<Rightarrow> AddressBook \<Rightarrow> AddressBook" where
  "delete nm b =
     (if map_of (data b) nm \<noteq> None
      then b\<lparr>data := AList.delete nm (data b),
             book_values := filter (\<lambda>record. name (store b ! record) \<noteq> nm) (book_values b)\<rparr>
      else b)"

definition paginated_list :: "int \<Rightarrow> int \<Rightarrow> AddressBook \<Rightarrow> addr list" where
  "paginated_list page page_size b =
     (let start = (page - 1) * page_size;
          stop = start + page_size
      in py_slice start stop (book_values b))"

definition AddressBook_str :: "AddressBook \<Rightarrow> string" where
  "AddressBook_str b = join [CHR 0x0A] (map (\<lambda>record. Record_str (store b ! record)) (book_values b))"

section \<open>The command interpreter\<close>

definition paginated_contacts :: "int \<Rightarrow> int \<Rightarrow> AddressBook \<Rightarrow> string" where
  "paginated_contacts page page_size b =
     (let contacts = paginated_list page page_size b
      in if contacts = [] then ''No contacts found on this page.''
         else join [CHR 0x0A] (map (\<lambda>record. Record_str (store b ! record)) contacts))"

text \<open>
  \<open>parse_command\<close> returns what the method returns or raises, and the book as the call
  leaves it: a record added before an exception stays added, and a record object is
  written back to the store as the method called on it left it. The branches are in the
  order of the source's \<open>if\<close>/\<open>elif\<close> chain. A tuple assignment whose right-hand side
  has the wrong number of items raises, as the fall-through of each \<open>case\<close> on a split
  says; \<open>contact.phones[0]\<close> raises on an empty list.
\<close>

definition parse_command :: "string \<Rightarrow> AddressBook \<Rightarrow> (error + string) \<times> AddressBook" where
  "parse_command line b =
     (let command = lower line in
      if command = ''hello'' then (Inr ''How can I help you?'', b)
      else if startswith command ''add '' then
        (case split_max (CHR '' '') 1 command of
           [u, rest] \<Rightarrow>
             (case split_ws rest of
                [nm, phone, bday] \<Rightarrow>
                  (case Record_init nm (Some bday) of
                     Inl e \<Rightarrow> (Inl e, b)
                   | Inr r \<Rightarrow>
                       (let (record, b1) = new_object r b;
                            b2 = add_record record b1
                        in case map_of (data b2) nm of
                             None \<Rightarrow> (Inl (KeyError nm), b2)
                           | Some a \<Rightarrow>
                               (case add_phone phone (store b2 ! a) of
                                  (Some e, r') \<Rightarrow> (Inl e, b2\<lparr>store := (store b2)[a := r']\<rparr>)
                                | (None, r') \<Rightarrow>
                                    (Inr (''Added contact: '' @ nm @ '', '' @ phone
                                          @ '', Birthday: '' @ bday),
                                     b2\<lparr>store := (store b2)[a := r']\<rparr>))))
              | parts \<Rightarrow> (Inr ''Give me name, phone, and birthday (if applicable)'', b))
         | parts \<Rightarrow> (Inl (unpack_error 2 (length parts)), b))
      else if startswith command ''change '' then
        (case split_max (CHR '' '') 1 command of
           [u, rest] \<Rightarrow>
             if CHR '' '' \<notin> set rest then (Inr ''Give me name and phone please'', b)
             else
               (case split_ws rest of
                  [nm, phone] \<Rightarrow>
                    (case find_record nm b of
                       Some contact \<Rightarrow>
                         (case phones (store b ! contact) of
                            [] \<Rightarrow> (Inl (IndexError ''list index out of range''), b)
                          | p0 # ps \<Rightarrow>
                              (case edit_phone p0 phone (store b ! contact) of
                                 (Some e, r') \<Rightarrow> (Inl e, b\<lparr>store := (store b)[contact := r']\<rparr>)
                               | (None, r') \<Rightarrow>
                                   (Inr (''Updated contact: '' @ nm @ '', '' @ phone),
                                    b\<lparr>store := (store b)[contact := r']\<rparr>)))
                     | None \<Rightarrow>
                         (Inl (ValueError (''Contact '' @ [CHR 0x27] @ nm @ [CHR 0x27]
                                           @ '' not found.'')), b))
                | parts \<Rightarrow> (Inl (unpack_error 2 (length parts)), b))
         | parts \<Rightarrow> (Inl (unpack_error 2 (length parts)), b))
      else if startswith command ''phone '' then
        (case split_max (CHR '' '') 1 command of
           [u, nm] \<Rightarrow>
             (case find_record nm b of
                Some contact \<Rightarrow>
                  (case phones (store b ! contact) of
                     [] \<Rightarrow> (Inl (IndexError ''list index out of range''), b)
                   | p0 # ps \<Rightarrow> (Inr (''Phone number for '' @ nm @ '': '' @ p0), b))
              | None \<Rightarrow>
                  (Inl (ValueError (''Contact '' @ [CHR 0x27] @ nm @ [CHR 0x27]
                                    @ '' not found.'')), b))
         | parts \<Rightarrow> (Inl (unpack_error 2 (length parts)), b))
      else if command = ''show all'' then
        (if data b = [] then (Inr ''No users found'', b)
         else (Inr (paginated_contacts 1 5 b), b))
      else if startswith command ''show page '' then
        (case split_max (CHR '' '') 2 command of
           [u, page_str] \<Rightarrow>
             (case py_int page_str of
                None \<Rightarrow> (Inr ''Invalid page number.'', b)
              | Some page \<Rightarrow>
                  if page \<le> 0 then (Inr ''Invalid page number.'', b)
                  else (Inr (paginated_contacts page 5 b), b))
         | parts \<Rightarrow> (Inl (unpack_error 2 (length parts)), b))
      else if command \<in> set [''good bye'', ''close'', ''exit''] then (Inl SystemExit, b)
      else if command \<in> set [''add'', ''change''] then (Inr ''Give me name and phone please'', b)
      else if command = ''phone'' then (Inr ''Give me name please'', b)
      else (Inl (ValueError ''Unknown command.''), b))"

text \<open>
  \<open>str(e)\<close> for the exceptions above, and one turn of the loop of \<open>run\<close>: the lines it
  prints for an input line, and the book it goes on with (\<open>None\<close> when the process
  exits). An empty result is not printed.
\<close>

fun str_error :: "error \<Rightarrow> string" where
  "str_error (ValueError m) = m"
| "str_error (IndexError m) = m"
| "str_error (KeyError k) = [CHR 0x27] @ k @ [CHR 0x27]"
| "str_error SystemExit = []"

definition run_step :: "string \<Rightarrow> AddressBook \<Rightarrow> string list \<times> AddressBook option" where
  "run_step line b =
     (case parse_command line b of
        (Inr result, b') \<Rightarrow> ((if result = [] then [] else [result]), Some b')
      | (Inl SystemExit, b') \<Rightarrow> ([''Good bye!''], None)
      | (Inl e, b') \<Rightarrow> ([''Error: '' @ str_error e], Some b'))"

text \<open>
  The loop of \<open>run\<close> over the lines typed, from a given book: everything it prints after
  the banner, and the book when the input ends or the process exits.
\<close>

fun run_lines :: "string list \<Rightarrow> AddressBook \<Rightarrow> string list \<times> AddressBook" where
  "run_lines [] b = ([], b)"
| "run_lines (line # rest) b =
     (case run_step line b of
        (out, None) \<Rightarrow> (out, b)
      | (out, Some b') \<Rightarrow> (case run_lines rest b' of (outs, b'') \<Rightarrow> (out @ outs, b'')))"

section \<open>Properties the specification names\<close>

text \<open>
  The consistency of the two views of a book, in the specification's words: every key of
  the mapping corresponds to exactly one entry of the ordered sequence (exactly one entry
  carries that name), and every entry of the ordered sequence to exactly one key.
\<close>

definition keys :: "AddressBook \<Rightarrow> string list" where
  "keys b = map fst (data b)"

definition entry_names :: "AddressBook \<Rightarrow> string list" where
  "entry_names b = map (\<lambda>record. name (store b ! record)) (book_values b)"

definition consistent :: "AddressBook \<Rightarrow> bool" where
  "consistent b =
     ((\<forall>k \<in> set (keys b). count_list (entry_names b) k = 1) \<and>
      (\<forall>n \<in> set (entry_names b). count_list (keys b) n = 1))"

text \<open>
  The shape \<open>YYYY-MM-DD\<close> of the specification: four digits, two digits and two digits
  with hyphens between them. A string that is a calendar date in that form has this
  shape.
\<close>

definition matches_YYYY_MM_DD :: "string \<Rightarrow> bool" where
  "matches_YYYY_MM_DD s =
     (case s of
        [y1, y2, y3, y4, h1, m1, m2, h2, d1, d2] \<Rightarrow>
          list_all isdecimal_char [y1, y2, y3, y4, m1, m2, d1, d2]
          \<and> h1 = CHR ''-'' \<and> h2 = CHR ''-''
      | _ \<Rightarrow> False)"



section \<open>Example books\<close>

text \<open>The book after six contacts were added, one \<open>add\<close> command each.\<close>

definition six_contacts :: AddressBook where
  "six_contacts =
     \<lparr>store =
        [\<lparr>name = ''ann'', phones = [''1000000001''], birthday = Some ''1990-01-01''\<rparr>,
         \<lparr>name = ''bob'', phones = [''1000000002''], birthday = Some ''1990-01-02''\<rparr>,
         \<lparr>name = ''eve'', phones = [''1000000003''], birthday = Some ''1990-01-03''\<rparr>,
         \<lparr>name = ''dan'', phones = [''1000000004''], birthday = Some ''1990-01-04''\<rparr>,
         \<lparr>name = ''kim'', phones = [''1000000005''], birthday = Some ''1990-01-05''\<rparr>,
         \<lparr>name = ''joe'', phones = [''1000000006''], birthday = Some ''1990-01-06''\<rparr>],
      data = [(''ann'', 0), (''bob'', 1), (''eve'', 2), (''dan'', 3), (''kim'', 4), (''joe'', 5)],
      book_values = [0, 1, 2, 3, 4, 5]\<rparr>"

text \<open>
  The empty book after two records named \<open>john\<close> were created and added with
  \<open>add_record\<close>, one after the other.
\<close>

definition two_johns :: AddressBook where
  "two_johns =
     (let (r1, b1) = new_object \<lparr>name = ''john'', phones = [], birthday = None\<rparr> AddressBook_init;
          b2 = add_record r1 b1;
          (r2, b3) = new_object \<lparr>name = ''john'', phones = [], birthday = None\<rparr> b2
      in add_record r2 b3)"

text \<open>The book after \<open>add john 123 1990-05-01\<close> failed on its phone number.\<close>

definition john_without_phone :: AddressBook where
  "john_without_phone =
     \<lparr>store = [\<lparr>name = ''john'', phones = [], birthday = Some ''1990-05-01''\<rparr>],
      data = [(''john'', 0)],
      book_values = [0]\<rparr>"

section \<open>Phone numbers\<close>








section \<open>Editing a phone\<close>

lemma edit_phone_loop_absent:
  "old \<notin> set ps \<Longrightarrow>
   edit_phone_loop old new ps = (Some (ValueError ''Phone number not found''), ps)"
  by (induction ps) auto

lemma edit_phone_loop_refused:
  "old \<in> set ps \<Longrightarrow> \<not> is_valid_phone new \<Longrightarrow>
   edit_phone_loop old new ps = (Some (ValueError ''Invalid phone number format''), ps)"
  by (induction ps) (auto simp: Phone_set_value_def)

lemma edit_phone_loop_first:
  "old \<notin> set xs \<Longrightarrow> is_valid_phone new \<Longrightarrow>
   edit_phone_loop old new (xs @ old # ys) = (None, xs @ new # ys)"
  by (induction xs) (auto simp: Phone_set_value_def)

text \<open>
  Claim C6, as stated, has \<open>edit_phone\<close> fail with the format error whenever the new
  phone is malformed. When no phone equals the old one the loop never reaches the
  setter, and the call fails with the not-found error whatever the new phone is.
\<close>

theorem edit_phone_malformed_new_not_found:
  "\<not> is_valid_phone ''abc'' \<and>
   fst (edit_phone ''0000000000'' ''abc''
          \<lparr>name = ''john'', phones = [''1234567890''], birthday = None\<rparr>)
     = Some (ValueError ''Phone number not found'') \<and>
   fst (edit_phone ''0000000000'' ''abc''
          \<lparr>name = ''john'', phones = [''1234567890''], birthday = None\<rparr>)
     \<noteq> Some (ValueError ''Invalid phone number format'')"
  by (simp add: edit_phone_def is_valid_phone_def)

text \<open>
  Claim C6, amended. For every record and phones \<open>old\<close>, \<open>new\<close>: if no phone of the record
  equals \<open>old\<close>, \<open>edit_phone\<close> fails with the not-found error; if some phone equals
  \<open>old\<close> and \<open>new\<close> is malformed, it fails with the format error; in both cases the
  record is unchanged. Otherwise the first phone equal to \<open>old\<close> is replaced with \<open>new\<close>
  and nothing else changes.
\<close>

theorem edit_phone_result:
  "(old \<notin> set (phones r) \<longrightarrow>
      edit_phone old new r = (Some (ValueError ''Phone number not found''), r)) \<and>
   (old \<in> set (phones r) \<and> \<not> is_valid_phone new \<longrightarrow>
      edit_phone old new r = (Some (ValueError ''Invalid phone number format''), r)) \<and>
   (phones r = xs @ old # ys \<and> old \<notin> set xs \<and> is_valid_phone new \<longrightarrow>
      edit_phone old new r = (None, r\<lparr>phones := xs @ new # ys\<rparr>))"
  by (simp add: edit_phone_def edit_phone_loop_absent edit_phone_loop_refused
      edit_phone_loop_first)

theorem edit_phone_result_witness:
  "edit_phone ''0000000000'' ''1111111111''
     \<lparr>name = ''john'', phones = [''1234567890''], birthday = None\<rparr>
     = (Some (ValueError ''Phone number not found''),
        \<lparr>name = ''john'', phones = [''1234567890''], birthday = None\<rparr>) \<and>
   edit_phone ''1234567890'' ''abc''
     \<lparr>name = ''john'', phones = [''1234567890''], birthday = None\<rparr>
     = (Some (ValueError ''Invalid phone number format''),
        \<lparr>name = ''john'', phones = [''1234567890''], birthday = None\<rparr>) \<and>
   edit_phone ''1234567890'' ''1111111111''
     \<lparr>name = ''john'', phones = [''5555555555'', ''1234567890'', ''1234567890''],
      birthday = None\<rparr>
     = (None,
        \<lparr>name = ''john'', phones = [''5555555555'', ''1111111111'', ''1234567890''],
         birthday = None\<rparr>)"
  using edit_phone_result [of "''0000000000''"
      "\<lparr>name = ''john'', phones = [''1234567890''], birthday = None\<rparr>" "''1111111111''"]
    edit_phone_result [of "''1234567890''"
      "\<lparr>name = ''john'', phones = [''1234567890''], birthday = None\<rparr>" "''abc''"]
    edit_phone_result [of "''1234567890''"
      "\<lparr>name = ''john'', phones = [''5555555555'', ''1234567890'', ''1234567890''],
        birthday = None\<rparr>"
      "''1111111111''" "[''5555555555'']" "[''1234567890'']"]
  by (simp add: is_valid_phone_def isdigit_def isdigit_char_def)

section \<open>Adding, finding and deleting records\<close>

text \<open>
  Claim C7. For every address book and every name, \<open>find\<close> after \<open>delete\<close> of that name
  returns nothing; and when the name is not in the book, \<open>delete\<close> leaves the book as it
  is (the model of \<open>delete\<close> has no error result, as the method raises nothing).
\<close>

theorem delete_then_find:
  "find_record nm (delete nm b) = None \<and> (find_record nm b = None \<longrightarrow> delete nm b = b)"
  by (simp add: find_record_def delete_def AList.delete_conv')

theorem delete_then_find_witness:
  "find_record ''joe'' six_contacts = Some 5 \<and>
   find_record ''joe'' (delete ''joe'' six_contacts) = None \<and>
   find_record ''zed'' six_contacts = None \<and>
   delete ''zed'' six_contacts = six_contacts"
  using delete_then_find [of "''joe''" six_contacts] delete_then_find [of "''zed''" six_contacts]
  by (simp add: find_record_def six_contacts_def)

text \<open>
  Claim C8. For every address book and every record object, \<open>find\<close> with the record's
  name after \<open>add_record\<close> of that record returns a record whose name is the name added
  (it returns the record object itself).
\<close>

theorem add_record_then_find:
  "record < length (store b) \<Longrightarrow>
   find_record (name (store b ! record)) (add_record record b) = Some record \<and>
   name (store (add_record record b) ! record) = name (store b ! record)"
  by (simp add: find_record_def add_record_def AList.update_conv')

theorem add_record_then_find_witness:
  "new_object \<lparr>name = ''zed'', phones = [], birthday = None\<rparr> six_contacts
     = (6, six_contacts\<lparr>store := store six_contacts
                                  @ [\<lparr>name = ''zed'', phones = [], birthday = None\<rparr>]\<rparr>) \<and>
   find_record ''zed''
     (add_record 6 (six_contacts\<lparr>store := store six_contacts
                                   @ [\<lparr>name = ''zed'', phones = [], birthday = None\<rparr>]\<rparr>))
     = Some 6"
  using add_record_then_find [of 6 "six_contacts\<lparr>store := store six_contacts
                                   @ [\<lparr>name = ''zed'', phones = [], birthday = None\<rparr>]\<rparr>"]
  by (simp add: new_object_def six_contacts_def)

section \<open>Pagination\<close>

lemma py_slice_forward:
  "0 \<le> start \<Longrightarrow> start \<le> stop \<Longrightarrow>
   py_slice start stop xs = take (nat (stop - start)) (drop (nat start) xs)"
  by (auto simp: py_slice_def Let_def min_def)

lemma concat_chunks:
  "concat (map (\<lambda>i. take k (drop (i * k) xs)) [0..<m]) = take (m * k) xs"
proof (induction m)
  case 0
  show ?case by simp
next
  case (Suc m)
  have "take (Suc m * k) xs = take (m * k + k) xs"
    by (simp add: add.commute)
  also have "\<dots> = take (m * k) xs @ take k (drop (m * k) xs)"
    by (rule take_add)
  finally show ?case
    using Suc.IH by simp
qed

lemma paginated_list_chunk:
  "0 < P \<Longrightarrow>
   paginated_list (1 + int i) P b = take (nat P) (drop (i * nat P) (book_values b))"
  by (simp add: paginated_list_def Let_def py_slice_forward nat_mult_distrib)

lemma pages_nonneg:
  assumes "0 < P"
  shows "0 \<le> \<lceil>real n / real_of_int P\<rceil>"
proof -
  have "0 \<le> real n / real_of_int P"
    using assms by simp
  then have "- 1 < real n / real_of_int P"
    by linarith
  then show ?thesis
    by (simp only: zero_le_ceiling)
qed

lemma pages_cover:
  assumes "0 < P"
  shows "length (book_values b)
           \<le> nat \<lceil>real (length (book_values b)) / real_of_int P\<rceil> * nat P"
proof -
  let ?N = "length (book_values b)"
  let ?K = "\<lceil>real ?N / real_of_int P\<rceil>"
  have "0 < real_of_int P"
    using assms by simp
  then have "real ?N \<le> real_of_int ?K * real_of_int P"
    using le_of_int_ceiling [of "real ?N / real_of_int P"] by (simp only: pos_divide_le_eq)
  then have "int ?N \<le> ?K * P"
    by (metis of_int_le_iff of_int_mult of_int_of_nat_eq)
  moreover have "0 \<le> ?K"
    using assms by (rule pages_nonneg)
  ultimately show ?thesis
    using assms by (metis nat_int nat_mono nat_mult_distrib)
qed

text \<open>
  Claim C5. For every book whose ordered sequence has \<open>N\<close> records and every page size
  \<open>P > 0\<close>, the pages \<open>1\<close> to \<open>ceil(N/P)\<close> of \<open>paginated_list\<close>, concatenated in order,
  are the whole ordered sequence, and every page after \<open>ceil(N/P)\<close> is empty.
\<close>

theorem pagination_partitions:
  assumes "0 < P"
  shows "concat (map (\<lambda>page. paginated_list (int page) P b)
                  [1..<Suc (nat \<lceil>real (length (book_values b)) / real_of_int P\<rceil>)])
           = book_values b \<and>
         (\<forall>page. \<lceil>real (length (book_values b)) / real_of_int P\<rceil> < page \<longrightarrow>
                 paginated_list page P b = [])"
proof
  let ?K = "nat \<lceil>real (length (book_values b)) / real_of_int P\<rceil>"
  have "[1..<Suc ?K] = map Suc [0..<?K]"
    by (simp add: map_Suc_upt)
  then have "concat (map (\<lambda>page. paginated_list (int page) P b) [1..<Suc ?K])
             = concat (map (\<lambda>i. take (nat P) (drop (i * nat P) (book_values b))) [0..<?K])"
    using assms by (simp add: comp_def paginated_list_chunk del: upt_Suc)
  also have "\<dots> = take (?K * nat P) (book_values b)"
    by (rule concat_chunks)
  also have "\<dots> = book_values b"
    using pages_cover [OF assms] by simp
  finally show "concat (map (\<lambda>page. paginated_list (int page) P b) [1..<Suc ?K])
                  = book_values b" .
next
  let ?K = "\<lceil>real (length (book_values b)) / real_of_int P\<rceil>"
  show "\<forall>page. ?K < page \<longrightarrow> paginated_list page P b = []"
  proof (intro allI impI)
    fix page assume lt: "?K < page"
    have K0: "0 \<le> ?K"
      using assms by (rule pages_nonneg)
    define i where "i = nat (page - 1)"
    have "0 < page"
      using lt K0 by (rule le_less_trans [rotated])
    then have page: "page = 1 + int i"
      by (simp add: i_def)
    have "nat ?K \<le> i"
      using lt page K0 by linarith
    then have "nat ?K * nat P \<le> i * nat P"
      by simp
    then have "length (book_values b) \<le> i * nat P"
      using pages_cover [OF assms, of b] by linarith
    then show "paginated_list page P b = []"
      using assms page by (simp add: paginated_list_chunk)
  qed
qed

theorem pagination_partitions_witness:
  "(0::int) < 5 \<and>
   paginated_list 1 5 six_contacts @ paginated_list 2 5 six_contacts = [0, 1, 2, 3, 4, 5] \<and>
   paginated_list 3 5 six_contacts = []"
  using pagination_partitions [of 5 six_contacts]
  by (simp add: six_contacts_def numeral_2_eq_2)

section \<open>The command \<open>show page\<close>\<close>

lemma six_contacts_by_commands:
  "snd (run_lines [''add ann 1000000001 1990-01-01'', ''add bob 1000000002 1990-01-02'',
                   ''add eve 1000000003 1990-01-03'', ''add dan 1000000004 1990-01-04'',
                   ''add kim 1000000005 1990-01-05'', ''add joe 1000000006 1990-01-06'']
         AddressBook_init) = six_contacts"
  by code_simp

lemma lower_prefix:
  "startswith (lower line) p \<Longrightarrow> lower line = p @ drop (length p) (lower line)"
  by (metis append_take_drop_id startswith_def)

lemma unpack_error_2_3:
  "unpack_error 2 3 = ValueError ''too many values to unpack (expected 2)''"
  by code_simp

text \<open>
  Every line that reaches the \<open>show page\<close> branch raises: the branch splits the command
  into three pieces and assigns them to two names, before the \<open>try\<close> that would turn a
  bad page number into a reply.
\<close>

lemma show_page_always_raises:
  assumes "startswith (lower line) ''show page ''"
  shows "parse_command line b
           = (Inl (ValueError ''too many values to unpack (expected 2)''), b)"
proof -
  obtain rest where l: "lower line = ''show page '' @ rest"
    using lower_prefix [OF assms] by blast
  show ?thesis
    by (simp add: parse_command_def l startswith_def numeral_2_eq_2
        unpack_error_2_3 [unfolded numeral_2_eq_2 numeral_3_eq_3])
qed

text \<open>
  Claim C2 says that \<open>show page n\<close> replies with page \<open>n\<close> for a positive \<open>n\<close> and with
  \<open>Invalid page number.\<close> otherwise. On the book of six contacts, \<open>show page 2\<close> should
  show the sixth contact and \<open>show page 0\<close> should be refused as a page number; both
  raise the unpacking error instead, which the loop prints as an error.
\<close>

theorem show_page_raises_unpack_error:
  "parse_command ''show page 2'' six_contacts
     = (Inl (ValueError ''too many values to unpack (expected 2)''), six_contacts) \<and>
   run_step ''show page 2'' six_contacts
     = ([''Error: too many values to unpack (expected 2)''], Some six_contacts) \<and>
   run_step ''show page 0'' six_contacts
     = ([''Error: too many values to unpack (expected 2)''], Some six_contacts) \<and>
   paginated_contacts 2 5 six_contacts
     = ''Contact name: joe, phones: 1000000006, Birthday: 1990-01-06''"
  by (simp add: run_step_def show_page_always_raises startswith_def lower_def lower_char_def
      paginated_contacts_def paginated_list_def py_slice_def six_contacts_def Record_str_def)

section \<open>Birthdays\<close>

lemma Birthday_init_never_fails: "Birthday_init v = Inr v"
  by (simp add: Birthday_init_def Field_init_def)

text \<open>The setter, which the constructor does not call, refuses what \<open>strptime\<close> refuses.\<close>

lemma Birthday_set_value_checks:
  "\<not> strptime_ok v \<Longrightarrow>
   Birthday_set_value strptime_ok self v
     = (Some (ValueError ''Invalid birthday date format. Use YYYY-MM-DD format.''), self)"
  by (simp add: Birthday_set_value_def)

text \<open>
  Claim C1 says that constructing a \<open>Birthday\<close> from a non-empty string that is not a
  date in the form \<open>YYYY-MM-DD\<close> fails with the format error, also through the
  constructor of \<open>Record\<close>. The string \<open>not-a-date\<close> is not of that form, yet the
  birthday and the record are constructed, and the \<open>add\<close> command stores the contact
  with it.
\<close>

theorem Birthday_constructor_accepts_non_date:
  "\<not> matches_YYYY_MM_DD ''not-a-date'' \<and>
   Birthday_init ''not-a-date'' = Inr ''not-a-date'' \<and>
   Record_init ''john'' (Some ''not-a-date'')
     = Inr \<lparr>name = ''john'', phones = [], birthday = Some ''not-a-date''\<rparr> \<and>
   run_step ''add john 1234567890 not-a-date'' AddressBook_init
     = ([''Added contact: john, 1234567890, Birthday: not-a-date''],
        Some \<lparr>store = [\<lparr>name = ''john'', phones = [''1234567890''],
                         birthday = Some ''not-a-date''\<rparr>],
              data = [(''john'', 0)], book_values = [0]\<rparr>)"
  by code_simp

section \<open>The two views of the book\<close>

lemma count_list_removeAll:
  "count_list (removeAll x xs) y = (if y = x then 0 else count_list xs y)"
  by (induction xs) auto

lemma entry_names_delete:
  "map_of (data b) nm \<noteq> None \<Longrightarrow> entry_names (delete nm b) = removeAll nm (entry_names b)"
  by (simp add: entry_names_def delete_def removeAll_filter_not_eq filter_map comp_def
      eq_commute)

lemma keys_delete: "keys (delete nm b) = removeAll nm (keys b)"
  by (cases "map_of (data b) nm")
    (auto simp add: keys_def delete_def AList.delete_keys map_of_eq_None_iff)

text \<open>
  The empty book is consistent, \<open>delete\<close> keeps a book consistent, and so does
  \<open>add_record\<close> of a record whose name is not yet a key.
\<close>

lemma consistent_empty: "consistent AddressBook_init"
  by (simp add: consistent_def keys_def entry_names_def AddressBook_init_def)

lemma consistent_delete:
  assumes "consistent b"
  shows "consistent (delete nm b)"
proof (cases "map_of (data b) nm = None")
  case True
  then show ?thesis
    using assms by (simp add: delete_def)
next
  case False
  then show ?thesis
    using assms
    by (simp add: consistent_def keys_delete entry_names_delete count_list_removeAll)
qed

lemma consistent_add_fresh:
  assumes "consistent b" and "find_record (name (store b ! record)) b = None"
  shows "consistent (add_record record b)"
proof -
  let ?n = "name (store b ! record)"
  have fresh: "?n \<notin> set (keys b)"
    using assms(2) by (simp add: find_record_def keys_def map_of_eq_None_iff)
  have k: "keys (add_record record b) = keys b @ [?n]"
    using fresh by (simp add: keys_def add_record_def AList.update_keys)
  have e: "entry_names (add_record record b) = entry_names b @ [?n]"
    by (simp add: entry_names_def add_record_def)
  have none: "?n \<notin> set (entry_names b)"
  proof
    assume "?n \<in> set (entry_names b)"
    then have "count_list (keys b) ?n = 1"
      using assms(1) by (simp add: consistent_def)
    then show False
      using fresh by (simp add: count_list_0_iff)
  qed
  show ?thesis
    unfolding consistent_def k e
    using assms(1) fresh none
    by (auto simp: consistent_def count_list_0_iff)
qed

text \<open>
  Claim C3 says that the mapping and the ordered sequence stay consistent under every
  sequence of \<open>add_record\<close> and \<open>delete\<close>, in particular after \<open>add_record\<close> with a name
  already present. Adding two records named \<open>john\<close> to the empty book, which is
  consistent, leaves one key and two entries of that name.
\<close>

theorem add_record_same_name_inconsistent:
  "consistent AddressBook_init \<and>
   keys two_johns = [''john''] \<and>
   entry_names two_johns = [''john'', ''john''] \<and>
   find_record ''john'' two_johns = Some 1 \<and>
   book_values two_johns = [0, 1] \<and>
   \<not> consistent two_johns"
  by code_simp

text \<open>
  The key \<open>john\<close> of that book is a key for which the first half of the consistency
  fails: two entries carry the name.
\<close>

theorem add_record_same_name_inconsistent_witness:
  "''john'' \<in> set (keys two_johns) \<and> count_list (entry_names two_johns) ''john'' = 2"
  using add_record_same_name_inconsistent by simp

section \<open>The command \<open>add\<close> with a malformed phone\<close>



lemma john_without_phone_by_command:
  "run_lines [''add john 123 1990-05-01''] AddressBook_init
     = ([''Error: Invalid phone number format''], john_without_phone)"
  by code_simp

section \<open>Contacts without a phone\<close>

text \<open>
  Claim C10. For every contact in the book whose phone list is empty, the command
  \<open>phone\<close> with that name and the command \<open>change\<close> with that name and a phone read
  the first phone without a guard and raise the out-of-range indexing error, not a
  not-found or format error; the book is unchanged.
\<close>

theorem empty_phone_list_index_error:
  assumes "find_record nm b = Some contact"
    and "phones (store b ! contact) = []"
  shows "(lower line1 = ''phone '' @ nm \<longrightarrow>
            parse_command line1 b = (Inl (IndexError ''list index out of range''), b)) \<and>
         (lower line2 = ''change '' @ rest \<and> CHR '' '' \<in> set rest
            \<and> split_ws rest = [nm, phone] \<longrightarrow>
            parse_command line2 b = (Inl (IndexError ''list index out of range''), b))"
  using assms
  by (simp add: parse_command_def startswith_def)

theorem empty_phone_list_index_error_witness:
  "find_record ''john'' john_without_phone = Some 0 \<and>
   phones (store john_without_phone ! 0) = [] \<and>
   parse_command ''phone john'' john_without_phone
     = (Inl (IndexError ''list index out of range''), john_without_phone) \<and>
   parse_command ''change john 1234567890'' john_without_phone
     = (Inl (IndexError ''list index out of range''), john_without_phone)"
proof -
  have f: "find_record ''john'' john_without_phone = Some 0"
    by (simp add: find_record_def john_without_phone_def)
  have p: "phones (store john_without_phone ! 0) = []"
    by (simp add: john_without_phone_def)
  have l1: "lower ''phone john'' = ''phone '' @ ''john''"
    by code_simp
  have l2: "lower ''change john 1234567890'' = ''change '' @ ''john 1234567890''"
    by code_simp
  have s: "split_ws ''john 1234567890'' = [''john'', ''1234567890'']"
    by code_simp
  show ?thesis
    using empty_phone_list_index_error [OF f p, of "''phone john''"
        "''change john 1234567890''" "''john 1234567890''" "''1234567890''"] f p l1 l2 s
    by simp
qed

end
